theory Spec2Isabelle
  imports Main
begin

section \<open>Python strings\<close>

text \<open>
  A Python \<open>str\<close> is modelled by \<open>string\<close>, one \<open>char\<close> per code point. Isabelle
  characters have eight bits, so the model covers the texts whose code points are below
  256 (Latin-1, which holds the Spanish letters and the inverted question mark). The three
  classifications below are those of CPython on that range: \<open>str.isspace\<close> (used by
  \<open>str.strip\<close> and by \<open>\s\<close>), the word characters of \<open>\w\<close> and \<open>\b\<close> (alphanumeric
  or underscore), and \<open>str.lower\<close>.
\<close>

type_synonym str = string

definition ord :: "char \<Rightarrow> nat" where
  "ord c = of_char c"

definition isspace :: "char \<Rightarrow> bool" where
  "isspace c = (ord c \<in> set [9, 10, 11, 12, 13, 28, 29, 30, 31, 32, 133, 160])"

definition isword :: "char \<Rightarrow> bool" where
  "isword c = (let n = ord c in
     (48 \<le> n \<and> n \<le> 57) \<or> (65 \<le> n \<and> n \<le> 90) \<or> n = 95 \<or> (97 \<le> n \<and> n \<le> 122) \<or>
     n \<in> set [170, 178, 179, 181, 185, 186, 188, 189, 190] \<or>
     (192 \<le> n \<and> n \<le> 214) \<or> (216 \<le> n \<and> n \<le> 246) \<or> (248 \<le> n \<and> n \<le> 255))"

definition lower_chr :: "char \<Rightarrow> char" where
  "lower_chr c = (let n = ord c in
     if (65 \<le> n \<and> n \<le> 90) \<or> (192 \<le> n \<and> n \<le> 222 \<and> n \<noteq> 215)
     then char_of (n + 32) else c)"

definition lower :: "str \<Rightarrow> str" where
  "lower s = map lower_chr s"

definition strip :: "str \<Rightarrow> str" where
  "strip s = rev (dropWhile isspace (rev (dropWhile isspace s)))"

definition startswith :: "str \<Rightarrow> str \<Rightarrow> bool" where
  "startswith s pre = (take (length pre) s = pre)"

definition endswith :: "str \<Rightarrow> str \<Rightarrow> bool" where
  "endswith s suf = (length suf \<le> length s \<and> drop (length s - length suf) s = suf)"

text \<open>\<open>needle in s\<close> on strings: \<open>needle\<close> occurs in \<open>s\<close> as a substring.\<close>

fun contains :: "str \<Rightarrow> str \<Rightarrow> bool" where
  "contains needle [] = (needle = [])"
| "contains needle (c # cs) = (startswith (c # cs) needle \<or> contains needle cs)"

text \<open>\<open>s.split(':')[0]\<close>: the text before the first colon, all of \<open>s\<close> when it has none.\<close>

definition before_colon :: "str \<Rightarrow> str" where
  "before_colon s = takeWhile (\<lambda>c. c \<noteq> CHR '':'') s"

definition digit_chr :: "nat \<Rightarrow> char" where
  "digit_chr d = char_of (48 + d)"

fun str_nat :: "nat \<Rightarrow> str" where
  "str_nat n = (if n < 10 then [digit_chr n] else str_nat (n div 10) @ [digit_chr (n mod 10)])"

section \<open>Regular expressions\<close>

text \<open>
  The fragment of Python's \<open>re\<close> that the validators use, as a backtracking matcher.
  \<open>ends ic r p s\<close> lists, in the engine's order of preference (greedy repetition first,
  left alternative first), the positions at which a match of \<open>r\<close> that starts at the
  current position can end. A position is the pair of the character just before it
  (\<open>None\<close> at the start of the text) and the text that remains. \<open>ic\<close> is the flag
  \<open>re.IGNORECASE\<close>.
\<close>

datatype citem = C char | R char char

fun in_item :: "char \<Rightarrow> citem \<Rightarrow> bool" where
  "in_item c (C a) = (c = a)"
| "in_item c (R a b) = (ord a \<le> ord c \<and> ord c \<le> ord b)"

definition in_set :: "bool \<Rightarrow> citem list \<Rightarrow> char \<Rightarrow> bool" where
  "in_set ic items c =
     (list_ex (in_item c) items \<or> (ic \<and> list_ex (in_item (lower_chr c)) items))"

datatype re = Lit char | In "citem list" | NotIn "citem list" | Space | Bnd | Bol | Eol
  | Seq re re | Alt re re | Star re

fun step :: "(char \<Rightarrow> bool) \<Rightarrow> str \<Rightarrow> (char option \<times> str) list" where
  "step P [] = []"
| "step P (c # cs) = (if P c then [(Some c, cs)] else [])"

definition at_boundary :: "char option \<Rightarrow> str \<Rightarrow> bool" where
  "at_boundary p s =
     ((case p of None \<Rightarrow> False | Some c \<Rightarrow> isword c) \<noteq>
      (case s of [] \<Rightarrow> False | c # _ \<Rightarrow> isword c))"

function ends :: "bool \<Rightarrow> re \<Rightarrow> char option \<Rightarrow> str \<Rightarrow> (char option \<times> str) list" where
  "ends ic (Lit a) p s = step (\<lambda>c. if ic then lower_chr c = lower_chr a else c = a) s"
| "ends ic (In items) p s = step (in_set ic items) s"
| "ends ic (NotIn items) p s = step (\<lambda>c. \<not> in_set ic items c) s"
| "ends ic Space p s = step isspace s"
| "ends ic Bnd p s = (if at_boundary p s then [(p, s)] else [])"
| "ends ic Bol p s = (if p = None then [(p, s)] else [])"
| "ends ic Eol p s = (if s = [] \<or> s = [CHR 0x0A] then [(p, s)] else [])"
| "ends ic (Seq r1 r2) p s = concat (map (\<lambda>(p', t). ends ic r2 p' t) (ends ic r1 p s))"
| "ends ic (Alt r1 r2) p s = ends ic r1 p s @ ends ic r2 p s"
| "ends ic (Star r) p s =
     concat (map (\<lambda>(p', t). ends ic (Star r) p' t)
                 (filter (\<lambda>(p', t). length t < length s) (ends ic r p s))) @ [(p, s)]"
  by pat_completeness auto
termination
  by (relation "measures [\<lambda>(ic, r, p, s). size r, \<lambda>(ic, r, p, s). length s]") auto

text \<open>\<open>lits w k\<close> is the pattern that reads the literal text \<open>w\<close> and goes on with \<open>k\<close>.\<close>

fun lits :: "str \<Rightarrow> re \<Rightarrow> re" where
  "lits [] k = k"
| "lits (c # cs) k = Seq (Lit c) (lits cs k)"

text \<open>\<open>re.match\<close>: the text of the first match that starts at the beginning, if any.\<close>

definition re_match :: "bool \<Rightarrow> re \<Rightarrow> str \<Rightarrow> str option" where
  "re_match ic r s =
     (case ends ic r None s of [] \<Rightarrow> None
      | (p, t) # _ \<Rightarrow> Some (take (length s - length t) s))"

text \<open>\<open>re.search\<close>, as a truth value: some position of the text starts a match.\<close>

fun search_from :: "bool \<Rightarrow> re \<Rightarrow> char option \<Rightarrow> str \<Rightarrow> bool" where
  "search_from ic r p [] = (ends ic r p [] \<noteq> [])"
| "search_from ic r p (c # cs) = (ends ic r p (c # cs) \<noteq> [] \<or> search_from ic r (Some c) cs)"

definition re_search :: "bool \<Rightarrow> re \<Rightarrow> str \<Rightarrow> bool" where
  "re_search ic r s = search_from ic r None s"

text \<open>
  \<open>findall\<close>: the matches from left to right, none overlapping another; the scan goes on
  where the last match ended, or one character further where no match starts. (A pattern
  that matches the empty text yields the empty match and moves one character on; the
  pattern of the question extractor reads at least one character.)
\<close>

function findall_from :: "bool \<Rightarrow> re \<Rightarrow> char option \<Rightarrow> str \<Rightarrow> str list" where
  "findall_from ic r p s =
     (case ends ic r p s of
        [] \<Rightarrow> (case s of [] \<Rightarrow> [] | c # cs \<Rightarrow> findall_from ic r (Some c) cs)
      | (p', t) # _ \<Rightarrow>
          if length t < length s
          then take (length s - length t) s # findall_from ic r p' t
          else [] # (case s of [] \<Rightarrow> [] | c # cs \<Rightarrow> findall_from ic r (Some c) cs))"
  by pat_completeness auto
termination
  by (relation "measure (\<lambda>(ic, r, p, s). length s)") auto

definition findall :: "re \<Rightarrow> str \<Rightarrow> str list" where
  "findall r s = findall_from False r None s"

section \<open>Configuration\<close>

definition MAX_DOCX :: nat where
  "MAX_DOCX = 10"

definition ETIQUETAS_VALIDAS :: "str list" where
  "ETIQUETAS_VALIDAS = [''ENTREVISTADOR'', ''ENTREVISTADORA'', ''ENTREVISTADO'', ''ENTREVISTADA'']"

definition bs :: str where
  "bs = [CHR 0x5C]"

definition az :: re where
  "az = In [R CHR ''a'' CHR ''z'']"

text \<open>Each forbidden pattern with its source text, which the error description quotes.\<close>

definition ETIQUETAS_INVALIDAS_PATRONES :: "(str \<times> re) list" where
  "ETIQUETAS_INVALIDAS_PATRONES =
    [(bs @ ''bUsuario'' @ bs @ ''b'', Seq Bnd (lits ''Usuario'' Bnd)),
     (bs @ ''bX{3,}'' @ bs @ ''b'', Seq Bnd (lits ''XXX'' (Seq (Star (Lit CHR ''X'')) Bnd))),
     (bs @ ''bXxxxxxx'' @ bs @ ''b'', Seq Bnd (lits ''Xxxxxxx'' Bnd)),
     (bs @ ''bEntrevistador[a-z]*'' @ bs @ ''b'', Seq Bnd (lits ''Entrevistador'' (Seq (Star az) Bnd))),
     (bs @ ''bEntrevistado[a-z]*'' @ bs @ ''b'', Seq Bnd (lits ''Entrevistado'' (Seq (Star az) Bnd))),
     (bs @ ''bentrevistador[a-z]*'' @ bs @ ''b'', Seq Bnd (lits ''entrevistador'' (Seq (Star az) Bnd))),
     (bs @ ''bentrevistado[a-z]*'' @ bs @ ''b'', Seq Bnd (lits ''entrevistado'' (Seq (Star az) Bnd))),
     (bs @ ''bModerador[a-z]*'' @ bs @ ''b'', Seq Bnd (lits ''Moderador'' (Seq (Star az) Bnd))),
     (bs @ ''bmoderador[a-z]*'' @ bs @ ''b'', Seq Bnd (lits ''moderador'' (Seq (Star az) Bnd))),
     (bs @ ''bSpeaker[a-z]*'' @ bs @ ''b'', Seq Bnd (lits ''Speaker'' (Seq (Star az) Bnd))),
     (bs @ ''bSPEAKER[a-z]*'' @ bs @ ''b'', Seq Bnd (lits ''SPEAKER'' (Seq (Star az) Bnd)))]"

text \<open>The pattern \<open>^([A-Z]+):\<close> of the label check.\<close>

definition patron_etiqueta :: re where
  "patron_etiqueta =
     Seq Bol (Seq (In [R CHR ''A'' CHR ''Z'']) (Seq (Star (In [R CHR ''A'' CHR ''Z''])) (Lit CHR '':'')))"

text \<open>The pattern \<open>[^?\n]+\?\<close> of the question extractor.\<close>

definition patron_pregunta :: re where
  "patron_pregunta =
     Seq (NotIn [C CHR ''?'', C CHR 0x0A])
         (Seq (Star (NotIn [C CHR ''?'', C CHR 0x0A])) (Lit CHR ''?''))"

text \<open>The pattern \<open>^(ENTREVISTAD[OA]|ENTREVISTADOR[OA]):\s*$\<close> of the empty-intervention check.\<close>

definition patron_vacia :: re where
  "patron_vacia =
     Seq Bol
       (Seq (Alt (lits ''ENTREVISTAD'' (In [C CHR ''O'', C CHR ''A'']))
                 (lits ''ENTREVISTADOR'' (In [C CHR ''O'', C CHR ''A''])))
            (Seq (Lit CHR '':'') (Seq (Star Space) Eol)))"

section \<open>Documents and error records\<close>

text \<open>
  What the validators read of a parsed document: a paragraph's text and runs; of a run its
  text, \<open>bold\<close> (in the document library \<open>True\<close>, \<open>False\<close> or \<open>None\<close>), the font name
  and the font size. The size is kept in half-points, the unit the document format stores;
  its value in points, \<open>size.pt\<close>, is half of it.
\<close>

record run =
  rtext :: str
  bold :: "bool option"
  font_name :: "str option"
  font_size :: "nat option"

record parrafo =
  ptext :: str
  runs :: "run list"

type_synonym document = "parrafo list"

type_synonym err = "nat \<times> str \<times> str"

record error_dict =
  linea :: nat
  tipo_error :: str
  descripcion :: str

record analysis =
  archivo :: str
  resumen :: "str \<rightharpoonup> nat"
  errores :: "error_dict list"

definition q :: str where
  "q = [CHR 0x27]"

definition FORMATO_NEGRITA :: str where
  "FORMATO_NEGRITA = ''Formato en negrita''"

definition ETIQUETA_INVALIDA :: str where
  "ETIQUETA_INVALIDA = ''Etiqueta inv'' @ [CHR 0xE1] @ ''lida''"

definition ENCABEZADO_SIN_NEGRITA :: str where
  "ENCABEZADO_SIN_NEGRITA = ''Encabezado sin negrita''"

definition PREGUNTA_NO_COINCIDE :: str where
  "PREGUNTA_NO_COINCIDE = ''Pregunta no coincide''"

definition FUENTE_INCORRECTA :: str where
  "FUENTE_INCORRECTA = ''Fuente incorrecta''"

definition TAMANO_INCORRECTO :: str where
  "TAMANO_INCORRECTO = ''Tama'' @ [CHR 0xF1] @ ''o incorrecto''"

definition INTERVENCION_VACIA :: str where
  "INTERVENCION_VACIA = ''Intervenci'' @ [CHR 0xF3] @ ''n vac'' @ [CHR 0xED] @ ''a tras etiqueta''"

section \<open>Rule validators\<close>

text \<open>
  Every validator is a loop \<open>for i, para in enumerate(doc.paragraphs)\<close> that appends to a
  list: the list is the concatenation, in order, of what each paragraph contributes.
\<close>

definition truthy :: "bool option \<Rightarrow> bool" where
  "truthy b = (b = Some True)"

text \<open>The inner loop of the bold check: \<open>is_bold\<close> after the loop over the runs.\<close>

fun is_bold :: "run list \<Rightarrow> bool" where
  "is_bold [] = True"
| "is_bold (r # rs) = (if strip (rtext r) \<noteq> [] \<and> \<not> truthy (bold r) then False else is_bold rs)"

definition negrita_para :: "nat \<Rightarrow> parrafo \<Rightarrow> err list" where
  "negrita_para i para =
     (let texto = strip (ptext para) in
      if startswith texto ''ENTREVISTADOR:'' \<or> startswith texto ''ENTREVISTADORA:''
      then (if \<not> is_bold (runs para)
            then [(i + 1, FORMATO_NEGRITA,
                   ''Texto de '' @ before_colon texto @ '' no est'' @ [CHR 0xE1] @
                   '' completamente en negrita.'')]
            else [])
      else [])"

definition validar_negrita_entrevistador :: "document \<Rightarrow> err list" where
  "validar_negrita_entrevistador doc = concat (map (\<lambda>(i, para). negrita_para i para) (enumerate 0 doc))"

definition etiquetas_para :: "nat \<Rightarrow> parrafo \<Rightarrow> err list" where
  "etiquetas_para i para =
     (let texto = strip (ptext para) in
      case re_match False patron_etiqueta texto of
        None \<Rightarrow> []
      | Some m \<Rightarrow>
          (let etiqueta = butlast m in
           if etiqueta \<notin> set ETIQUETAS_VALIDAS
           then [(i + 1, ETIQUETA_INVALIDA,
                  ''Etiqueta '' @ q @ etiqueta @ q @ '' no es v'' @ [CHR 0xE1] @ ''lida.'')]
           else if etiqueta \<in> set [''ENTREVISTADOR'', ''ENTREVISTADORA'']
           then (if \<not> list_ex (\<lambda>r. truthy (bold r) \<and> contains etiqueta (rtext r)) (runs para)
                 then [(i + 1, ENCABEZADO_SIN_NEGRITA,
                        ''Etiqueta '' @ q @ etiqueta @ q @ '' deber'' @ [CHR 0xED] @
                        ''a estar en negrita.'')]
                 else [])
           else []))"

definition validar_etiquetas_docx :: "document \<Rightarrow> err list" where
  "validar_etiquetas_docx doc = concat (map (\<lambda>(i, para). etiquetas_para i para) (enumerate 0 doc))"

text \<open>The inner loop over the patterns: the first that is found ends it.\<close>

fun primer_patron :: "(str \<times> re) list \<Rightarrow> str \<Rightarrow> str option" where
  "primer_patron [] texto = None"
| "primer_patron ((src, r) # ps) texto =
     (if re_search True r texto then Some src else primer_patron ps texto)"

definition invalidas_para :: "nat \<Rightarrow> parrafo \<Rightarrow> err list" where
  "invalidas_para i para =
     (let texto = strip (ptext para) in
      case primer_patron ETIQUETAS_INVALIDAS_PATRONES texto of
        None \<Rightarrow> []
      | Some src \<Rightarrow>
          [(i + 1, ETIQUETA_INVALIDA,
            ''Se encontr'' @ [CHR 0xF3] @ '' coincidencia con patr'' @ [CHR 0xF3] @ ''n: '' @ src)])"

definition detectar_etiquetas_invalidas :: "document \<Rightarrow> err list" where
  "detectar_etiquetas_invalidas doc = concat (map (\<lambda>(i, para). invalidas_para i para) (enumerate 0 doc))"

definition preguntas_para :: "nat \<Rightarrow> parrafo \<Rightarrow> (nat \<times> str) list" where
  "preguntas_para i para =
     map (\<lambda>p. (i + 1, p))
       (filter (\<lambda>p. p \<noteq> []) (map strip (findall patron_pregunta (ptext para))))"

definition extraer_preguntas_docx :: "document \<Rightarrow> (nat \<times> str) list" where
  "extraer_preguntas_docx doc = concat (map (\<lambda>(i, para). preguntas_para i para) (enumerate 0 doc))"

fun comparar_preguntas :: "(nat \<times> str) list \<Rightarrow> str list \<Rightarrow> err list" where
  "comparar_preguntas [] preguntas_ref = []"
| "comparar_preguntas ((l, pregunta) # rest) preguntas_ref =
     (if pregunta \<notin> set preguntas_ref
      then [(l, PREGUNTA_NO_COINCIDE,
             q @ pregunta @ q @ '' no est'' @ [CHR 0xE1] @ '' en la matriz de referencia'')]
      else []) @ comparar_preguntas rest preguntas_ref"

text \<open>
  The text of \<open>tam\<close>, a float: a whole number of points prints with \<open>.0\<close>, a half with
  \<open>.5\<close> (below \<open>1e16\<close>, where Python changes to the exponent form).
\<close>

definition str_pt :: "nat \<Rightarrow> str" where
  "str_pt hp = str_nat (hp div 2) @ (if even hp then ''.0'' else ''.5'')"

text \<open>
  The inner loop over the runs. \<open>fuente\<close> is false when it is \<open>None\<close> or empty; \<open>tam\<close>
  is \<open>None\<close> when the size is \<open>None\<close> or zero, and it differs from 12 when the size is
  not 24 half-points.
\<close>

fun fuente_runs :: "nat \<Rightarrow> run list \<Rightarrow> err list" where
  "fuente_runs i [] = []"
| "fuente_runs i (r # rs) =
     (let fuente = font_name r;
          tam = (case font_size r of None \<Rightarrow> None | Some hp \<Rightarrow> if hp \<noteq> 0 then Some hp else None)
      in case fuente of
           Some f \<Rightarrow>
             (if f \<noteq> [] \<and> lower f \<noteq> ''arial''
              then [(i + 1, FUENTE_INCORRECTA, q @ f @ q @ '' en vez de Arial'')]
              else (case tam of
                      Some hp \<Rightarrow>
                        (if hp \<noteq> 24
                         then [(i + 1, TAMANO_INCORRECTO, str_pt hp @ ''pt en vez de 12pt'')]
                         else fuente_runs i rs)
                    | None \<Rightarrow> fuente_runs i rs))
         | None \<Rightarrow>
             (case tam of
                Some hp \<Rightarrow>
                  (if hp \<noteq> 24
                   then [(i + 1, TAMANO_INCORRECTO, str_pt hp @ ''pt en vez de 12pt'')]
                   else fuente_runs i rs)
              | None \<Rightarrow> fuente_runs i rs))"

definition validar_fuente_tamano :: "document \<Rightarrow> err list" where
  "validar_fuente_tamano doc = concat (map (\<lambda>(i, para). fuente_runs i (runs para)) (enumerate 0 doc))"

definition vacia_para :: "nat \<Rightarrow> parrafo \<Rightarrow> err list" where
  "vacia_para i para =
     (if re_match False patron_vacia (strip (ptext para)) \<noteq> None
      then [(i + 1, INTERVENCION_VACIA, ''Debe ir junto al texto, sin salto de l'' @ [CHR 0xED] @ ''nea'')]
      else [])"

definition validar_intervencion_vacia :: "document \<Rightarrow> err list" where
  "validar_intervencion_vacia doc = concat (map (\<lambda>(i, para). vacia_para i para) (enumerate 0 doc))"

section \<open>Document analyzer\<close>

definition todos_errores :: "document \<Rightarrow> str list \<Rightarrow> err list" where
  "todos_errores doc preguntas_ref =
     comparar_preguntas (extraer_preguntas_docx doc) preguntas_ref
     @ validar_etiquetas_docx doc
     @ validar_negrita_entrevistador doc
     @ validar_fuente_tamano doc
     @ validar_intervencion_vacia doc
     @ detectar_etiquetas_invalidas doc"

definition to_dict :: "err \<Rightarrow> error_dict" where
  "to_dict e = (case e of (l, t, d) \<Rightarrow> \<lparr>linea = l, tipo_error = t, descripcion = d\<rparr>)"

text \<open>\<open>resumen[k] = resumen.get(k, 0) + 1\<close>\<close>

definition contar :: "(str \<rightharpoonup> nat) \<Rightarrow> error_dict \<Rightarrow> (str \<rightharpoonup> nat)" where
  "contar res e =
     res(tipo_error e \<mapsto> (case res (tipo_error e) of None \<Rightarrow> 0 | Some n \<Rightarrow> n) + 1)"

fun resumir :: "(str \<rightharpoonup> nat) \<Rightarrow> error_dict list \<Rightarrow> (str \<rightharpoonup> nat)" where
  "resumir res [] = res"
| "resumir res (e # es) = resumir (contar res e) es"

type_synonym bytes = "nat list"

text \<open>
  \<open>doc_from_bytes\<close> is the document library's parser, a parameter of the model; \<open>None\<close>
  stands for the exception it raises on bytes that are no document, which the analyzer
  lets through.
\<close>

definition analizar_un_docx ::
  "(bytes \<Rightarrow> document option) \<Rightarrow> str \<Rightarrow> bytes \<Rightarrow> str list \<Rightarrow> analysis option" where
  "analizar_un_docx doc_from_bytes nombre docx_bytes preguntas_ref =
     (case doc_from_bytes docx_bytes of
        None \<Rightarrow> None
      | Some doc \<Rightarrow>
          (let errores_list = map to_dict (todos_errores doc preguntas_ref)
           in Some \<lparr>archivo = nombre, resumen = resumir Map.empty errores_list,
                     errores = errores_list\<rparr>))"

section \<open>The endpoint\<close>

record upload =
  filename :: str
  content :: bytes

datatype failure =
    Unauthorized
  | NoDocx
  | NoXlsx
  | MalformedSpreadsheet
  | MalformedDocument str

text \<open>
  What the endpoint does to the uploads, in order: reading one (\<open>await f.read()\<close>) and
  handing the bytes read to a parser.
\<close>

datatype event = ReadUpload str | ParseXlsx | ParseDocx str

definition check_token :: "str option \<Rightarrow> str option \<Rightarrow> bool" where
  "check_token API_TOKEN x_token =
     (case API_TOKEN of None \<Rightarrow> True | Some t \<Rightarrow> x_token = Some t)"

text \<open>The loop over the accepted documents, with the events so far and the results so far.\<close>

fun analizar_todos ::
  "(bytes \<Rightarrow> document option) \<Rightarrow> str list \<Rightarrow> upload list \<Rightarrow> event list \<Rightarrow> analysis list
     \<Rightarrow> event list \<times> (failure + analysis list)" where
  "analizar_todos dfb preguntas_ref [] evs resultados = (evs, Inr resultados)"
| "analizar_todos dfb preguntas_ref (f # fs) evs resultados =
     (let evs' = evs @ [ReadUpload (filename f), ParseDocx (filename f)] in
      case analizar_un_docx dfb (filename f) (content f) preguntas_ref of
        None \<Rightarrow> (evs', Inl (MalformedDocument (filename f)))
      | Some res \<Rightarrow> analizar_todos dfb preguntas_ref fs evs' (resultados @ [res]))"

text \<open>
  \<open>read_excel_questions\<close> is the spreadsheet library's reader, a parameter; \<open>None\<close> stands
  for the exception it raises.
\<close>

definition analyze_endpoint ::
  "str option \<Rightarrow> (bytes \<Rightarrow> str list option) \<Rightarrow> (bytes \<Rightarrow> document option)
     \<Rightarrow> upload list \<Rightarrow> upload \<Rightarrow> str option \<Rightarrow> event list \<times> (failure + analysis list)" where
  "analyze_endpoint API_TOKEN read_excel_questions dfb documentos preguntas_excel x_token =
     (if \<not> check_token API_TOKEN x_token then ([], Inl Unauthorized)
      else
        let docx_files = filter (\<lambda>f. endswith (lower (filename f)) ''.docx'') documentos in
        if length docx_files = 0 then ([], Inl NoDocx)
        else
          let docx_files = (if length docx_files > MAX_DOCX then take MAX_DOCX docx_files
                            else docx_files) in
          if \<not> endswith (lower (filename preguntas_excel)) ''.xlsx'' then ([], Inl NoXlsx)
          else
            let evs = [ReadUpload (filename preguntas_excel), ParseXlsx] in
            case read_excel_questions (content preguntas_excel) of
              None \<Rightarrow> (evs, Inl MalformedSpreadsheet)
            | Some preguntas_ref \<Rightarrow> analizar_todos dfb preguntas_ref docx_files evs [])"

section \<open>Sample inputs\<close>

definition doc_usuario :: document where
  "doc_usuario = [\<lparr>ptext = ''USUARIO: algo'', runs = []\<rparr>, \<lparr>ptext = ''ENTREVISTADO:'', runs = []\<rparr>]"

(*DEFS*)

section \<open>The summary counts the errors by kind\<close>

lemma resumir_lookup:
  "resumir res es k =
     (if length (filter (\<lambda>e. tipo_error e = k) es) = 0 then res k
      else Some ((case res k of None \<Rightarrow> 0 | Some n \<Rightarrow> n) + length (filter (\<lambda>e. tipo_error e = k) es)))"
  by (induction es arbitrary: res) (auto simp: contar_def)

lemma filter_empty_iff_kind:
  "(length (filter (\<lambda>e. tipo_error e = k) es) = 0) = (k \<notin> tipo_error ` set es)"
  by (auto simp: filter_empty_conv)

lemma resumir_empty:
  "resumir Map.empty es k =
     (if k \<in> tipo_error ` set es then Some (length (filter (\<lambda>e. tipo_error e = k) es)) else None)"
  unfolding resumir_lookup filter_empty_iff_kind by simp

lemma analizar_Some:
  "analizar_un_docx dfb nombre b refs = Some r \<Longrightarrow>
     \<exists>doc. dfb b = Some doc \<and> archivo r = nombre \<and>
       errores r = map to_dict (todos_errores doc refs) \<and>
       resumen r = resumir Map.empty (errores r)"
  by (auto simp: analizar_un_docx_def Let_def split: option.splits)

text \<open>
  Claim C1. For every document and reference list, the summary of the analysis result maps
  each kind that occurs in the error list to the number of errors of that kind, and no
  other key; so its key set is the set of kinds present, and counting the error list again
  gives the same summary.
\<close>

theorem resumen_counts_errores:
  assumes "analizar_un_docx doc_from_bytes nombre docx_bytes preguntas_ref = Some r"
  shows "(\<forall>k. resumen r k =
            (if k \<in> tipo_error ` set (errores r)
             then Some (length (filter (\<lambda>e. tipo_error e = k) (errores r))) else None))
         \<and> dom (resumen r) = tipo_error ` set (errores r)
         \<and> resumir Map.empty (errores r) = resumen r"
proof -
  from analizar_Some [OF assms] have eq: "resumen r = resumir Map.empty (errores r)"
    by blast
  have look: "\<And>k. resumen r k =
            (if k \<in> tipo_error ` set (errores r)
             then Some (length (filter (\<lambda>e. tipo_error e = k) (errores r))) else None)"
    unfolding eq by (rule resumir_empty)
  have "dom (resumen r) = tipo_error ` set (errores r)"
    unfolding dom_def using look by (auto split: if_splits)
  with look eq show ?thesis by simp
qed

theorem resumen_counts_errores_witness:
  "resumen (the (analizar_un_docx (\<lambda>b. Some doc_usuario) ''a.docx'' [] [])) ETIQUETA_INVALIDA = Some 3"
proof -
  let ?r = "the (analizar_un_docx (\<lambda>b. Some doc_usuario) ''a.docx'' [] [])"
  have h: "analizar_un_docx (\<lambda>b. Some doc_usuario) ''a.docx'' [] [] = Some ?r"
    by (simp add: analizar_un_docx_def Let_def)
  have e: "map tipo_error (errores ?r) = [ETIQUETA_INVALIDA, INTERVENCION_VACIA, ETIQUETA_INVALIDA, ETIQUETA_INVALIDA]"
    by code_simp
  have c: "length (filter (\<lambda>e. tipo_error e = ETIQUETA_INVALIDA) (errores ?r)) = 3"
    by code_simp
  have m: "ETIQUETA_INVALIDA \<in> tipo_error ` set (errores ?r)"
    by code_simp
  show ?thesis using resumen_counts_errores [OF h] c m by simp
qed

section \<open>Line numbers stay within the document\<close>

lemma line_negrita: "e \<in> set (negrita_para i p) \<Longrightarrow> fst e = Suc i"
  by (auto simp: negrita_para_def Let_def split: if_splits)

lemma line_etiquetas: "e \<in> set (etiquetas_para i p) \<Longrightarrow> fst e = Suc i"
  by (auto simp: etiquetas_para_def Let_def split: if_splits option.splits)

lemma line_invalidas: "e \<in> set (invalidas_para i p) \<Longrightarrow> fst e = Suc i"
  by (auto simp: invalidas_para_def Let_def split: option.splits)

lemma line_vacia: "e \<in> set (vacia_para i p) \<Longrightarrow> fst e = Suc i"
  by (auto simp: vacia_para_def split: if_splits)

lemma line_preguntas: "e \<in> set (preguntas_para i p) \<Longrightarrow> fst e = Suc i"
  by (auto simp: preguntas_para_def)

lemma fuente_runs_cases:
  "fuente_runs i rs = [] \<or> (\<exists>d. fuente_runs i rs = [(Suc i, FUENTE_INCORRECTA, d)])
     \<or> (\<exists>d. fuente_runs i rs = [(Suc i, TAMANO_INCORRECTO, d)])"
  by (induction rs) (auto simp: Let_def split: option.splits)

lemma line_fuente: "e \<in> set (fuente_runs i rs) \<Longrightarrow> fst e = Suc i"
  using fuente_runs_cases [of i rs] by auto

lemma lines_enumerate:
  assumes g: "\<And>i p e. e \<in> set (g i p) \<Longrightarrow> fst e = Suc i"
    and e: "e \<in> set (concat (map (\<lambda>(i, p). g i p) (enumerate 0 doc)))"
  shows "1 \<le> fst e \<and> fst e \<le> length doc"
proof -
  from e obtain i p where ip: "(i, p) \<in> set (enumerate 0 doc)" and "e \<in> set (g i p)"
    by auto
  then have "fst e = Suc i" using g by blast
  moreover from ip have "i < length doc" by (simp add: in_set_enumerate_eq)
  ultimately show ?thesis by simp
qed

lemma lines_comparar: "e \<in> set (comparar_preguntas qs refs) \<Longrightarrow> fst e \<in> fst ` set qs"
  by (induction qs refs rule: comparar_preguntas.induct) (auto split: if_splits)

lemma lines_todos:
  assumes "e \<in> set (todos_errores doc refs)"
  shows "1 \<le> fst e \<and> fst e \<le> length doc"
proof -
  have q: "\<And>x. x \<in> set (extraer_preguntas_docx doc) \<Longrightarrow> 1 \<le> fst x \<and> fst x \<le> length doc"
    unfolding extraer_preguntas_docx_def by (rule lines_enumerate [where g = preguntas_para]) (auto dest: line_preguntas)
  from assms consider
      "e \<in> set (comparar_preguntas (extraer_preguntas_docx doc) refs)"
    | "e \<in> set (validar_etiquetas_docx doc)"
    | "e \<in> set (validar_negrita_entrevistador doc)"
    | "e \<in> set (validar_fuente_tamano doc)"
    | "e \<in> set (validar_intervencion_vacia doc)"
    | "e \<in> set (detectar_etiquetas_invalidas doc)"
    unfolding todos_errores_def by auto
  then show ?thesis
  proof cases
    case 1
    then obtain x where "x \<in> set (extraer_preguntas_docx doc)" "fst e = fst x"
      using lines_comparar by fastforce
    then show ?thesis using q by simp
  next
    case 2
    then show ?thesis unfolding validar_etiquetas_docx_def
      by (rule lines_enumerate [where g = etiquetas_para, rotated]) (rule line_etiquetas)
  next
    case 3
    then show ?thesis unfolding validar_negrita_entrevistador_def
      by (rule lines_enumerate [where g = negrita_para, rotated]) (rule line_negrita)
  next
    case 4
    then show ?thesis unfolding validar_fuente_tamano_def
      by (rule lines_enumerate [where g = "\<lambda>i p. fuente_runs i (runs p)", rotated]) (rule line_fuente)
  next
    case 5
    then show ?thesis unfolding validar_intervencion_vacia_def
      by (rule lines_enumerate [where g = vacia_para, rotated]) (rule line_vacia)
  next
    case 6
    then show ?thesis unfolding detectar_etiquetas_invalidas_def
      by (rule lines_enumerate [where g = invalidas_para, rotated]) (rule line_invalidas)
  qed
qed

lemma linea_to_dict: "linea (to_dict e) = fst e"
  by (cases e) (simp add: to_dict_def)

lemma tipo_to_dict: "tipo_error (to_dict e) = fst (snd e)"
  by (cases e) (simp add: to_dict_def)

text \<open>
  Claim C9. For every document and reference list, the line of every error record of the
  analysis result lies between 1 and the number of paragraphs of the parsed document.
\<close>

theorem linea_within_document:
  assumes "analizar_un_docx doc_from_bytes nombre docx_bytes preguntas_ref = Some r"
  shows "\<exists>doc. doc_from_bytes docx_bytes = Some doc \<and>
           (\<forall>e \<in> set (errores r). 1 \<le> linea e \<and> linea e \<le> length doc)"
proof -
  from analizar_Some [OF assms] obtain doc where d: "doc_from_bytes docx_bytes = Some doc"
    and es: "errores r = map to_dict (todos_errores doc preguntas_ref)" by blast
  have "\<forall>e \<in> set (errores r). 1 \<le> linea e \<and> linea e \<le> length doc"
    unfolding es using lines_todos [of _ doc preguntas_ref] by (auto simp: linea_to_dict)
  with d show ?thesis by blast
qed

theorem linea_within_document_witness:
  "list_all (\<lambda>e. 1 \<le> linea e \<and> linea e \<le> 2)
     (errores (the (analizar_un_docx (\<lambda>b. Some doc_usuario) ''a.docx'' [] [])))"
proof -
  let ?r = "the (analizar_un_docx (\<lambda>b. Some doc_usuario) ''a.docx'' [] [])"
  have h: "analizar_un_docx (\<lambda>b. Some doc_usuario) ''a.docx'' [] [] = Some ?r"
    by (simp add: analizar_un_docx_def Let_def)
  have l: "length doc_usuario = 2" by (simp add: doc_usuario_def)
  show ?thesis using linea_within_document [OF h] l by (simp add: list_all_iff)
qed



end
